theory Spec2Isabelle
  imports Complex_Main
begin

section \<open>Motion control of the FLL robot (class MbRobot, core/robot.py)\<close>

text \<open>
  The development follows \<^verbatim>\<open>src/robot/src/core/robot.py\<close>. Python numbers are read as
  real numbers: the control laws are stated over the reals, rounding of floating point
  arithmetic is not part of the model.
\<close>

subsection \<open>The PID controller\<close>

text \<open>
  The class \<^verbatim>\<open>PidController\<close> lives in \<^verbatim>\<open>core/control.py\<close>, which is not among the
  sources; robot.py only calls it. Its four operations are taken from the contract of
  the specification (section 4.1).
\<close>

record pid =
  kp :: real
  ki :: real
  kd :: real
  integral :: real
  previous_error :: real
  output_val :: real

text \<open>
  Modelled from the spec: the constructor of PidController (control.py is missing).
  It stores the three gains; the accumulated state starts at zero, as after \<open>reset\<close>.
\<close>

definition PidController :: "real \<Rightarrow> real \<Rightarrow> real \<Rightarrow> pid" where
  "PidController p i d =
     \<lparr>kp = p, ki = i, kd = d, integral = 0, previous_error = 0, output_val = 0\<rparr>"

text \<open>
  Modelled from the spec: PidController.reset (control.py is missing):
  "zero the integral accumulator and previous error".
\<close>

definition reset :: "pid \<Rightarrow> pid" where
  "reset c = c\<lparr>integral := 0, previous_error := 0\<rparr>"

text \<open>
  Modelled from the spec: PidController.settings (control.py is missing):
  "for each optional argument not supplied, retain the controller's current gain.
  Must not reset accumulated state". An argument that is None is \<open>None\<close>.
\<close>

definition settings :: "pid \<Rightarrow> real option \<Rightarrow> real option \<Rightarrow> real option \<Rightarrow> pid" where
  "settings c p i d =
     c\<lparr>kp := (case p of None \<Rightarrow> kp c | Some v \<Rightarrow> v),
       ki := (case i of None \<Rightarrow> ki c | Some v \<Rightarrow> v),
       kd := (case d of None \<Rightarrow> kd c | Some v \<Rightarrow> v)\<rparr>"

text \<open>
  Modelled from the spec: PidController.execute (control.py is missing):
  "integral += error; derivative = error - previous_error;
  output = gain_p*error + gain_i*integral + gain_d*derivative; previous_error = error;
  store and return output". \<open>derivative\<close> is the derivative term a call computes.
\<close>

definition derivative :: "pid \<Rightarrow> real \<Rightarrow> real" where
  "derivative c error = error - previous_error c"

definition execute :: "pid \<Rightarrow> real \<Rightarrow> pid" where
  "execute c error =
     (let integral' = integral c + error;
          derivative' = derivative c error;
          output' = kp c * error + ki c * integral' + kd c * derivative'
      in c\<lparr>integral := integral', previous_error := error, output_val := output'\<rparr>)"

text \<open>\<open>execute_n c e n\<close>: \<open>n\<close> successive calls \<open>execute(e)\<close> on the controller \<open>c\<close>.\<close>

definition execute_n :: "pid \<Rightarrow> real \<Rightarrow> nat \<Rightarrow> pid" where
  "execute_n c e n = ((\<lambda>q. execute q e) ^^ n) c"

subsection \<open>The environment and the state of the robot\<close>

text \<open>
  The hardware is outside the program. Everything the control loops read becomes an input:
  one \<open>sample\<close> holds what the environment answers during one pass through a loop, and
  the field \<open>env\<close> of the robot lists the samples still to come. A loop that needs a
  sample when none is left has not finished within the given environment: the result is
  \<open>None\<close>. \<open>button\<close> tells whether the background thread \<^verbatim>\<open>task_handler\<close> has seen
  the LEFT button pressed before the loop condition of this pass is evaluated.
\<close>

record sample =
  button :: bool
  gyro_angle :: real
  left_angle :: real
  right_angle :: real
  left_stalled :: bool
  right_stalled :: bool
  left_reflection :: real
  right_reflection :: real

text \<open>
  Everything the program asks of the motors and the gyro is appended to \<open>trace\<close>, in
  order. \<open>Call_turn\<close>, \<open>Call_drive\<close> and \<open>Call_run\<close> are not hardware operations:
  they record that the method was entered, with its first argument.
\<close>

datatype event =
    Gyro_reset
  | Left_run real | Right_run real
  | Left_hold | Right_hold
  | Left_brake | Right_brake
  | Left_reset_angle | Right_reset_angle
  | Left_is_stalled real | Right_is_stalled real
  | Call_turn real | Call_drive real | Call_run real

fun is_call :: "event \<Rightarrow> bool" where
  "is_call (Call_turn a) = True"
| "is_call (Call_drive d) = True"
| "is_call (Call_run d) = True"
| "is_call e = False"

text \<open>
  The attributes of \<^verbatim>\<open>self\<close>. Three of them stand for code that is not among the sources
  and are left open: \<open>cm_to_degrees\<close> is \<^verbatim>\<open>self.Tools.cm_to_degrees\<close>, \<open>calibration_log\<close> is
  the pair (white, black) that \<^verbatim>\<open>self.ColorSensors.calibration_log()\<close> returns, and
  \<open>kd_default\<close> is the derivative gain \<^verbatim>\<open>PidController(6, 0.15)\<close> gets when the third
  argument is omitted.
\<close>

record robot =
  active :: bool
  TurnSpeedControl :: pid
  RunSpeedControl :: pid
  RunHeadingControl :: pid
  LineFollowerSpeedControl :: pid
  LineFollowerHeadingControl :: pid
  trace :: "event list"
  env :: "sample list"
  cm_to_degrees :: "real \<Rightarrow> real"
  calibration_log :: "real \<times> real"
  kd_default :: real

datatype error = InvalidArgument string | AttributeError string

type_synonym result = "(error \<times> robot + robot) option"

definition emit :: "event list \<Rightarrow> robot \<Rightarrow> robot" where
  "emit es s = s\<lparr>trace := trace s @ es\<rparr>"

definition setup_control :: "robot \<Rightarrow> bool \<Rightarrow> bool \<Rightarrow> bool \<Rightarrow> robot" where
  "setup_control s turn_control run_control line_follower_control =
     (let s1 = (if turn_control
                then s\<lparr>TurnSpeedControl := PidController 6 0.15 (kd_default s)\<rparr> else s);
          s2 = (if run_control
                then s1\<lparr>RunSpeedControl := PidController 3 0.17 0,
                        RunHeadingControl := PidController 15 0.1 0\<rparr> else s1)
      in if line_follower_control
         then s2\<lparr>LineFollowerSpeedControl := PidController 1.4 0 0,
                 LineFollowerHeadingControl := PidController 3 0 0.4\<rparr> else s2)"

text \<open>
  \<^verbatim>\<open>__init__\<close>: the flag starts true and \<^verbatim>\<open>setup_control(True, True, True)\<close> creates the
  five controllers. The arguments are the open parts of the state and the environment.
\<close>

definition MbRobot :: "(real \<Rightarrow> real) \<Rightarrow> real \<times> real \<Rightarrow> real \<Rightarrow> sample list \<Rightarrow> robot" where
  "MbRobot conv calib kd0 xs =
     \<lparr>active = True,
      TurnSpeedControl = PidController 6 0.15 kd0,
      RunSpeedControl = PidController 3 0.17 0,
      RunHeadingControl = PidController 15 0.1 0,
      LineFollowerSpeedControl = PidController 1.4 0 0,
      LineFollowerHeadingControl = PidController 3 0 0.4,
      trace = [], env = xs, cm_to_degrees = conv, calibration_log = calib,
      kd_default = kd0\<rparr>"

text \<open>
  \<^verbatim>\<open>task_handler\<close> runs in its own thread and is the only writer of the flag. Its effect
  is interleaved with a loop at the point where the loop takes its next sample.
\<close>

definition task_handler :: "sample \<Rightarrow> robot \<Rightarrow> robot" where
  "task_handler x s = (if button x then s\<lparr>active := False\<rparr> else s)"

subsection \<open>turn\<close>

text \<open>
  The loop \<^verbatim>\<open>while moving and self.active and not exit_exec()\<close>. When \<open>moving\<close> has
  become false the condition reads nothing more, so the function returns without
  taking a sample.
\<close>

fun turn_loop :: "real \<Rightarrow> (sample \<Rightarrow> bool) \<Rightarrow> sample list \<Rightarrow> robot \<Rightarrow> robot option" where
  "turn_loop angle exit_exec [] s = (if active s then None else Some s)"
| "turn_loop angle exit_exec (x # xs) s =
     (if \<not> active s then Some s
      else
        let s1 = task_handler x (s\<lparr>env := xs\<rparr>) in
        if active s1 \<and> \<not> exit_exec x then
          let error = angle - gyro_angle x;
              c = execute (TurnSpeedControl s1) error;
              s2 = emit [Left_run (output_val c), Right_run (- output_val c)]
                     (s1\<lparr>TurnSpeedControl := c\<rparr>)
          in if - 2 < error \<and> error < 2 then Some s2
             else turn_loop angle exit_exec xs s2
        else Some s1)"

text \<open>The parameters \<^verbatim>\<open>min_speed\<close> and \<^verbatim>\<open>max_speed\<close> of turn are never read and are left out.\<close>

definition turn ::
  "robot \<Rightarrow> real \<Rightarrow> real option \<Rightarrow> real option \<Rightarrow> real option \<Rightarrow> (sample \<Rightarrow> bool)
     \<Rightarrow> robot option" where
  "turn s0 angle speed_kp speed_ki speed_kd exit_exec =
     (let s = emit [Call_turn angle] s0 in
      if active s then
        let s1 = emit [Gyro_reset] s;
            s2 = s1\<lparr>TurnSpeedControl :=
                      settings (reset (TurnSpeedControl s1)) speed_kp speed_ki speed_kd\<rparr>
        in case turn_loop angle exit_exec (env s2) s2 of
             None \<Rightarrow> None
           | Some s3 \<Rightarrow> Some (setup_control (emit [Left_hold, Right_hold] s3) True False False)
      else Some s)"

subsection \<open>drive\<close>

datatype orientation = Number real | Callable "sample \<Rightarrow> real"

record gains =
  speed_kp :: "real option"
  speed_ki :: "real option"
  speed_kd :: "real option"
  heading_kp :: "real option"
  heading_ki :: "real option"
  heading_kd :: "real option"

definition no_gains :: gains where
  "no_gains = \<lparr>speed_kp = None, speed_ki = None, speed_kd = None,
                heading_kp = None, heading_ki = None, heading_kd = None\<rparr>"

definition motors_dg :: "sample \<Rightarrow> real" where
  "motors_dg x = (right_angle x + left_angle x) / 2"

definition speed_error :: "real \<Rightarrow> real \<Rightarrow> real" where
  "speed_error distance_dg m =
     (if \<bar>m\<bar> < \<bar>distance_dg\<bar> / 2 then distance_dg - (distance_dg - m)
      else distance_dg - m)"

text \<open>\<^verbatim>\<open>abs(min_speed) * (-1 if distance < 0 else 1)\<close>, and the same for \<^verbatim>\<open>max_speed\<close>.\<close>

definition signed_speed :: "real \<Rightarrow> real \<Rightarrow> real" where
  "signed_speed speed distance = \<bar>speed\<bar> * (if distance < 0 then - 1 else 1)"

definition clamp_output :: "real \<Rightarrow> real \<Rightarrow> pid \<Rightarrow> pid" where
  "clamp_output min_speed max_speed c =
     (if \<bar>output_val c\<bar> < \<bar>min_speed\<bar> then c\<lparr>output_val := min_speed\<rparr>
      else if \<bar>output_val c\<bar> > \<bar>max_speed\<bar> then c\<lparr>output_val := max_speed\<rparr>
      else c)"


text \<open>
  One pass through the body of the loop of drive. The result is the new value of
  \<open>moved_enough\<close>, the new value of \<open>moving\<close> and the new state. \<^verbatim>\<open>or\<close> evaluates its
  operands from the left and stops at the first true one, so a wheel is only asked
  \<^verbatim>\<open>is_stalled\<close> when the operands before it are false.
\<close>

definition drive_iteration ::
  "real \<Rightarrow> real \<Rightarrow> real \<Rightarrow> (sample \<Rightarrow> real) \<Rightarrow> bool \<Rightarrow> sample \<Rightarrow> robot
     \<Rightarrow> bool \<times> bool \<times> robot" where
  "drive_iteration distance_dg min_speed max_speed heading_error moved_enough x s =
     (let m = motors_dg x;
          moved_enough' = (if \<bar>m\<bar> < \<bar>distance_dg\<bar> / 2 then moved_enough else True);
          hc = execute (RunHeadingControl s) (heading_error x);
          sc = clamp_output min_speed max_speed
                 (execute (RunSpeedControl s) (speed_error distance_dg m));
          s1 = emit [Left_run (output_val sc), Right_run (output_val sc - output_val hc)]
                 (s\<lparr>RunHeadingControl := hc, RunSpeedControl := sc\<rparr>)
      in if moved_enough' then
           (if \<bar>m\<bar> \<ge> \<bar>distance_dg\<bar> - 20 then (moved_enough', False, s1)
            else if left_stalled x
              then (moved_enough', False, emit [Left_is_stalled min_speed] s1)
            else if right_stalled x
              then (moved_enough', False,
                    emit [Left_is_stalled min_speed, Right_is_stalled min_speed] s1)
            else (moved_enough', True,
                    emit [Left_is_stalled min_speed, Right_is_stalled min_speed] s1))
         else (moved_enough', True, s1))"

fun drive_loop ::
  "real \<Rightarrow> real \<Rightarrow> real \<Rightarrow> (sample \<Rightarrow> real) \<Rightarrow> (sample \<Rightarrow> bool) \<Rightarrow> bool \<Rightarrow> sample list
     \<Rightarrow> robot \<Rightarrow> robot option" where
  "drive_loop distance_dg min_speed max_speed heading_error exit_exec moved_enough [] s =
     (if active s then None else Some s)"
| "drive_loop distance_dg min_speed max_speed heading_error exit_exec moved_enough (x # xs) s =
     (if \<not> active s then Some s
      else
        let s1 = task_handler x (s\<lparr>env := xs\<rparr>) in
        if active s1 \<and> \<not> exit_exec x then
          (case drive_iteration distance_dg min_speed max_speed heading_error
                  moved_enough x s1 of
             (moved_enough', moving, s2) \<Rightarrow>
               if moving
               then drive_loop distance_dg min_speed max_speed heading_error exit_exec
                      moved_enough' xs s2
               else Some s2)
        else Some s1)"

definition drive ::
  "robot \<Rightarrow> real \<Rightarrow> orientation \<Rightarrow> real \<Rightarrow> real \<Rightarrow> gains \<Rightarrow> (sample \<Rightarrow> bool)
     \<Rightarrow> robot option" where
  "drive s0 distance orient min_speed max_speed g exit_exec =
     (let s = emit [Call_drive distance] s0 in
      if active s then
        let s1 = emit [Gyro_reset, Left_reset_angle, Right_reset_angle] s;
            s2 = s1\<lparr>RunSpeedControl :=
                      settings (reset (RunSpeedControl s1))
                        (speed_kp g) (speed_ki g) (speed_kd g)\<rparr>;
            s3 = s2\<lparr>RunHeadingControl :=
                      settings (reset (RunHeadingControl s2))
                        (heading_kp g) (heading_ki g) (heading_kd g)\<rparr>;
            heading_error = (case orient of
                               Number v \<Rightarrow> (\<lambda>x. v - gyro_angle x)
                             | Callable f \<Rightarrow> f);
            distance_dg = cm_to_degrees s3 distance;
            min_speed' = signed_speed min_speed distance;
            max_speed' = signed_speed max_speed distance
        in case drive_loop distance_dg min_speed' max_speed' heading_error exit_exec
                  False (env s3) s3 of
             None \<Rightarrow> None
           | Some s4 \<Rightarrow> Some (setup_control (emit [Left_brake, Right_brake] s4) False True False)
      else Some s)"

subsection \<open>follow_line and drive_to_line\<close>

datatype sensor = Left_sensor | Right_sensor

definition reflection :: "sensor \<Rightarrow> sample \<Rightarrow> real" where
  "reflection sn x = (case sn of Left_sensor \<Rightarrow> left_reflection x
                               | Right_sensor \<Rightarrow> right_reflection x)"

text \<open>
  \<^verbatim>\<open>str.upper()\<close> on the byte strings of MicroPython: the letters a to z are
  replaced by A to Z, every other character is kept.
\<close>

definition upper_char :: "char \<Rightarrow> char" where
  "upper_char c =
     (let n = (of_char c :: nat) in if 97 \<le> n \<and> n \<le> 122 then char_of (n - 32) else c)"

definition upper :: "string \<Rightarrow> string" where
  "upper cs = map upper_char cs"

text \<open>The parameters \<^verbatim>\<open>min_speed\<close> and \<^verbatim>\<open>max_speed\<close> of follow_line are never read.\<close>

definition follow_line ::
  "robot \<Rightarrow> sensor \<Rightarrow> real \<Rightarrow> real option \<Rightarrow> gains \<Rightarrow> (sample \<Rightarrow> bool) \<Rightarrow> robot option" where
  "follow_line s sn distance target_value g exit_exec =
     (if active s then
        let target_value' = (case target_value of None \<Rightarrow> fst (calibration_log s)
                                                | Some v \<Rightarrow> v);
            s1 = s\<lparr>LineFollowerSpeedControl :=
                     settings (reset (LineFollowerSpeedControl s))
                       (speed_kp g) (speed_ki g) (speed_kd g)\<rparr>;
            s2 = s1\<lparr>LineFollowerHeadingControl :=
                      settings (reset (LineFollowerHeadingControl s1))
                        (heading_kp g) (heading_ki g) (heading_kd g)\<rparr>
        in case drive s2 distance (Callable (\<lambda>x. reflection sn x - target_value')) 90 800
                  \<lparr>speed_kp = Some (kp (LineFollowerSpeedControl s2)),
                   speed_ki = Some (ki (LineFollowerSpeedControl s2)),
                   speed_kd = Some (kd (LineFollowerSpeedControl s2)),
                   heading_kp = Some (kp (LineFollowerHeadingControl s2)),
                   heading_ki = Some (ki (LineFollowerHeadingControl s2)),
                   heading_kd = Some (kd (LineFollowerHeadingControl s2))\<rparr>
                  exit_exec of
             None \<Rightarrow> None
           | Some s3 \<Rightarrow> Some (setup_control s3 False False True)
      else Some s)"

text \<open>
  drive_to_line overwrites its parameter \<^verbatim>\<open>exit_exec\<close> before reading it. An exception
  leaves the method with the state reached so far: the result is \<open>Inl\<close> of the error and
  that state.
\<close>

definition drive_to_line ::
  "robot \<Rightarrow> real \<Rightarrow> string \<Rightarrow> sensor option \<Rightarrow> orientation \<Rightarrow> gains \<Rightarrow> real \<Rightarrow> real
     \<Rightarrow> (sample \<Rightarrow> bool) \<Rightarrow> result" where
  "drive_to_line s distance color sn orient g min_speed max_speed exit_exec =
     (if active s then
        let sn' = (case sn of None \<Rightarrow> Left_sensor | Some v \<Rightarrow> v);
            colors = calibration_log s
        in case (if upper color = ''WHITE''
                   then Inr (\<lambda>x. reflection sn' x > fst colors - 7)
                 else if upper color = ''BLACK''
                   then Inr (\<lambda>x. reflection sn' x < snd colors + 5)
                 else Inl (InvalidArgument ''Invalid color for self.run_to_line()'')) of
             Inl e \<Rightarrow> Some (Inl (e, s))
           | Inr exit_exec' \<Rightarrow>
               map_option Inr (drive s distance orient min_speed max_speed g exit_exec')
      else Some (Inr s))"

subsection \<open>square_line\<close>

text \<open>The inner loop \<^verbatim>\<open>while self.active\<close> of one repetition.\<close>

fun square_loop ::
  "nat \<Rightarrow> real \<Rightarrow> (sample \<Rightarrow> bool) \<Rightarrow> (sample \<Rightarrow> bool) \<Rightarrow> bool \<Rightarrow> bool \<Rightarrow> sample list
     \<Rightarrow> robot \<Rightarrow> robot option" where
  "square_loop repetition speed left_exit right_exit left_ok right_ok [] s =
     (if active s then None else Some s)"
| "square_loop repetition speed left_exit right_exit left_ok right_ok (x # xs) s =
     (if \<not> active s then Some s
      else
        let s1 = task_handler x (s\<lparr>env := xs\<rparr>) in
        if active s1 then
          let left_ok' = (left_ok \<or> left_exit x);
              s2 = (if left_exit x then emit [Left_hold] s1 else s1);
              right_ok' = (right_ok \<or> right_exit x);
              s3 = (if right_exit x then emit [Right_hold] s2 else s2)
          in if left_ok' \<and> right_ok' then
               (if repetition = 0
                then drive s3 (if speed > 0 then - 5 else 5) (Number 0) 90 800
                       (no_gains\<lparr>speed_kp := Some 1.2\<rparr>) (\<lambda>x. False)
                else Some s3)
             else square_loop repetition speed left_exit right_exit left_ok' right_ok' xs s3
        else Some s1)"

text \<open>The loop \<^verbatim>\<open>for repetition in range(2)\<close>, over the list of the values of \<open>repetition\<close>.\<close>

fun square_for ::
  "nat list \<Rightarrow> real \<Rightarrow> (sample \<Rightarrow> bool) \<Rightarrow> (sample \<Rightarrow> bool) \<Rightarrow> robot \<Rightarrow> robot option" where
  "square_for [] speed left_exit right_exit s = Some s"
| "square_for (repetition # reps) speed left_exit right_exit s =
     (let s1 = emit [Left_run speed, Right_run speed] s in
      case square_loop repetition speed left_exit right_exit False False (env s1) s1 of
        None \<Rightarrow> None
      | Some s2 \<Rightarrow>
          if \<not> active s2 then Some s2
          else square_for reps speed left_exit right_exit s2)"

definition square_line :: "robot \<Rightarrow> bool \<Rightarrow> real \<Rightarrow> string \<Rightarrow> result" where
  "square_line s forward speed color =
     (if active s then
        let speed' = \<bar>speed\<bar> * (if forward then 1 else - 1);
            colors = calibration_log s;
            white_value = fst colors - 10;
            black_value = snd colors + 5
        in case (if upper color = ''WHITE''
                   then Inr (\<lambda>x. left_reflection x > white_value,
                             \<lambda>x. right_reflection x > white_value)
                 else if upper color = ''BLACK''
                   then Inr (\<lambda>x. left_reflection x < black_value,
                             \<lambda>x. right_reflection x < black_value)
                 else Inl (InvalidArgument ''Invalid color for Robot.square_line()'')) of
             Inl e \<Rightarrow> Some (Inl (e, s))
           | Inr (left_exit, right_exit) \<Rightarrow>
               (case square_for [0, 1] speed' left_exit right_exit s of
                  None \<Rightarrow> None
                | Some s1 \<Rightarrow> Some (Inr (emit [Left_hold, Right_hold] s1)))
      else Some (Inr s))"

subsection \<open>run_path\<close>

text \<open>
  The loop \<^verbatim>\<open>for i in range(len(path) - 1)\<close> of run_path: \<^verbatim>\<open>self.run(path[i])\<close>, then
  \<^verbatim>\<open>self.turn(path[i+1])\<close> if \<^verbatim>\<open>i < len(path) - 2\<close>. The method that \<^verbatim>\<open>self.run\<close>
  resolves to is the argument \<open>run_m\<close>. Every index read lies below \<open>length path\<close>.
\<close>

fun run_path_for ::
  "(robot \<Rightarrow> real \<Rightarrow> result) \<Rightarrow> real list \<Rightarrow> nat list \<Rightarrow> robot \<Rightarrow> result" where
  "run_path_for run_m path [] s = Some (Inr s)"
| "run_path_for run_m path (i # js) s =
     (case run_m s (path ! i) of
        None \<Rightarrow> None
      | Some (Inl e) \<Rightarrow> Some (Inl e)
      | Some (Inr s1) \<Rightarrow>
          (case (if int i < int (length path) - 2
                 then turn s1 (path ! (i + 1)) None None None (\<lambda>x. False)
                 else Some s1) of
             None \<Rightarrow> None
           | Some s2 \<Rightarrow> run_path_for run_m path js s2))"

text \<open>
  The class in \<^verbatim>\<open>src/robot/src/core/robot.py\<close> has no method \<^verbatim>\<open>run\<close> (the method is
  called drive there): looking up \<^verbatim>\<open>self.run\<close> raises AttributeError.
\<close>

definition run_path :: "robot \<Rightarrow> real list \<Rightarrow> result" where
  "run_path s path =
     run_path_for (\<lambda>s1 d. Some (Inl (AttributeError ''run'', s1))) path
       [0 ..< length path - 1] s"

subsection \<open>The methods of src/Robot/src/core/robot.py\<close>

text \<open>
  \<^verbatim>\<open>src/Robot/src/core/robot.py\<close> is a second copy of the class, in which drive is called
  run and drive_to_line is called run_to_line. run passes to \<^verbatim>\<open>settings\<close> the current gain
  in place of an argument that is None; its loop is the loop of drive.
\<close>

definition run ::
  "robot \<Rightarrow> real \<Rightarrow> orientation \<Rightarrow> real \<Rightarrow> real \<Rightarrow> gains \<Rightarrow> (sample \<Rightarrow> bool)
     \<Rightarrow> robot option" where
  "run s0 distance orient min_speed max_speed g exit_exec =
     (let s = emit [Call_run distance] s0 in
      if active s then
        let s1 = emit [Gyro_reset, Left_reset_angle, Right_reset_angle] s;
            c = reset (RunSpeedControl s1);
            s2 = s1\<lparr>RunSpeedControl :=
                      settings c
                        (Some (case speed_kp g of None \<Rightarrow> kp c | Some v \<Rightarrow> v))
                        (Some (case speed_ki g of None \<Rightarrow> ki c | Some v \<Rightarrow> v))
                        (Some (case speed_kd g of None \<Rightarrow> kd c | Some v \<Rightarrow> v))\<rparr>;
            h = reset (RunHeadingControl s2);
            s3 = s2\<lparr>RunHeadingControl :=
                      settings h
                        (Some (case heading_kp g of None \<Rightarrow> kp h | Some v \<Rightarrow> v))
                        (Some (case heading_ki g of None \<Rightarrow> ki h | Some v \<Rightarrow> v))
                        (Some (case heading_kd g of None \<Rightarrow> kd h | Some v \<Rightarrow> v))\<rparr>;
            min_speed' = signed_speed min_speed distance;
            max_speed' = signed_speed max_speed distance;
            heading_error = (case orient of
                               Number v \<Rightarrow> (\<lambda>x. v - gyro_angle x)
                             | Callable f \<Rightarrow> f);
            distance_dg = cm_to_degrees s3 distance
        in case drive_loop distance_dg min_speed' max_speed' heading_error exit_exec
                  False (env s3) s3 of
             None \<Rightarrow> None
           | Some s4 \<Rightarrow> Some (setup_control (emit [Left_brake, Right_brake] s4) False True False)
      else Some s)"

definition run_to_line ::
  "robot \<Rightarrow> real \<Rightarrow> sensor option \<Rightarrow> string \<Rightarrow> orientation \<Rightarrow> gains \<Rightarrow> real \<Rightarrow> real
     \<Rightarrow> (sample \<Rightarrow> bool) \<Rightarrow> result" where
  "run_to_line s distance sn color orient g min_speed max_speed exit_exec =
     (if active s then
        let sn' = (case sn of None \<Rightarrow> Left_sensor | Some v \<Rightarrow> v);
            colors = calibration_log s
        in case (if upper color = ''WHITE''
                   then Inr (\<lambda>x. reflection sn' x > fst colors - 10)
                 else if upper color = ''BLACK''
                   then Inr (\<lambda>x. reflection sn' x < snd colors + 10)
                 else Inl (InvalidArgument ''Invalid color for self.run_to_line()'')) of
             Inl e \<Rightarrow> Some (Inl (e, s))
           | Inr exit_exec' \<Rightarrow>
               map_option Inr (run s distance orient min_speed max_speed g exit_exec')
      else Some (Inr s))"

text \<open>run_path of this copy: \<^verbatim>\<open>self.run(path[i])\<close> is run with its default arguments.\<close>

definition Robot_run_path :: "robot \<Rightarrow> real list \<Rightarrow> result" where
  "Robot_run_path s path =
     run_path_for
       (\<lambda>s1 d. map_option Inr (run s1 d (Number 0) 90 800 no_gains (\<lambda>x. False))) path
       [0 ..< length path - 1] s"

subsection \<open>A concrete robot and concrete samples\<close>

text \<open>
  The examples below run the methods on this robot: the wheel conversion is 20 degrees
  per centimetre, the calibration log is (80, 10). In \<open>example_sample g a st r\<close> the
  gyro reads \<open>g\<close>, both wheels read the angle \<open>a\<close>, the left wheel is stalled iff \<open>st\<close>,
  both colour sensors read \<open>r\<close>, and the button is not pressed.
\<close>

definition example_sample :: "real \<Rightarrow> real \<Rightarrow> bool \<Rightarrow> real \<Rightarrow> sample" where
  "example_sample g a st r =
     \<lparr>button = False, gyro_angle = g, left_angle = a, right_angle = a,
      left_stalled = st, right_stalled = False, left_reflection = r, right_reflection = r\<rparr>"

definition example_robot :: "sample list \<Rightarrow> robot" where
  "example_robot xs = MbRobot (\<lambda>cm. 20 * cm) (80, 10) 0 xs"

text \<open>A sample on which the button has been seen pressed.\<close>

definition pressed_sample :: sample where
  "pressed_sample = (example_sample 0 0 False 0)\<lparr>button := True\<rparr>"


text \<open>The hold operations of one pass through the inner loop of square_line.\<close>

definition holds_of :: "bool \<Rightarrow> bool \<Rightarrow> event list" where
  "holds_of l r = (if l then [Left_hold] else []) @ (if r then [Right_hold] else [])"


subsection \<open>Conditions on the environment of square_line\<close>

text \<open>
  The two predicates that square_line builds for a valid colour, by their names in the
  source: for WHITE the sensor reads more than the white value minus 10, for BLACK
  (the other valid colour) less than the black value plus 5.
\<close>

definition left_steering_motor_exit_exec :: "robot \<Rightarrow> string \<Rightarrow> sample \<Rightarrow> bool" where
  "left_steering_motor_exit_exec s color x =
     (if upper color = ''WHITE'' then left_reflection x > fst (calibration_log s) - 10
      else left_reflection x < snd (calibration_log s) + 5)"

definition right_steering_motor_exit_exec :: "robot \<Rightarrow> string \<Rightarrow> sample \<Rightarrow> bool" where
  "right_steering_motor_exit_exec s color x =
     (if upper color = ''WHITE'' then right_reflection x > fst (calibration_log s) - 10
      else right_reflection x < snd (calibration_log s) + 5)"


section \<open>Properties of the PID controller\<close>

lemma execute_n_0: "execute_n c e 0 = c"
  by (simp add: execute_n_def)

lemma execute_n_Suc: "execute_n c e (Suc n) = execute (execute_n c e n) e"
  by (simp add: execute_n_def)

lemma execute_n_gains:
  "kp (execute_n c e n) = kp c \<and> ki (execute_n c e n) = ki c \<and> kd (execute_n c e n) = kd c"
  by (induction n) (simp_all add: execute_n_0 execute_n_Suc execute_def Let_def)

lemma execute_n_integral: "integral (execute_n c e n) = integral c + real n * e"
  by (induction n) (simp_all add: execute_n_0 execute_n_Suc execute_def Let_def algebra_simps)

lemma execute_n_previous_error:
  "0 < n \<Longrightarrow> previous_error (execute_n c e n) = e"
  by (cases n) (simp_all add: execute_n_Suc execute_def Let_def)

lemma execute_n_output:
  "output_val (execute_n c e (Suc m)) =
     kp c * e + ki c * integral (execute_n c e (Suc m))
       + kd c * derivative (execute_n c e m) e"
proof -
  have g: "kp (execute_n c e m) = kp c" "ki (execute_n c e m) = ki c"
    "kd (execute_n c e m) = kd c"
    using execute_n_gains [of c e m] by simp_all
  show ?thesis
    unfolding execute_n_Suc
    by (simp add: execute_def Let_def g)
qed

lemma reset_fields:
  "kp (reset c) = kp c" "ki (reset c) = ki c" "kd (reset c) = kd c"
  "integral (reset c) = 0" "previous_error (reset c) = 0"
  by (simp_all add: reset_def)

text \<open>
  Claim C3. A constant error \<open>e\<close> is fed \<open>n \<ge> 1\<close> times to a freshly reset controller.
  The integral accumulator then holds \<open>n * e\<close>; for every call number \<open>k\<close> from the second
  on, the derivative term computed by that call is \<open>0\<close> and the call returns
  \<open>gain_p * e + gain_i * k * e\<close>.
\<close>

theorem pid_constant_error:
  "1 \<le> n \<Longrightarrow>
     integral (execute_n (reset c) e n) = real n * e \<and>
     (\<forall>k. 2 \<le> k \<longrightarrow>
        derivative (execute_n (reset c) e (k - 1)) e = 0 \<and>
        output_val (execute_n (reset c) e k) = kp c * e + ki c * real k * e)"
proof (intro conjI allI impI)
  show "integral (execute_n (reset c) e n) = real n * e"
    by (simp add: execute_n_integral reset_fields)
next
  fix k :: nat
  assume k: "2 \<le> k"
  then obtain m where m: "k = Suc m" and "0 < m"
    by (cases k) auto
  then have "previous_error (execute_n (reset c) e m) = e"
    by (simp add: execute_n_previous_error)
  then have d: "derivative (execute_n (reset c) e m) e = 0"
    by (simp add: derivative_def)
  then show "derivative (execute_n (reset c) e (k - 1)) e = 0"
    by (simp add: m)
  have "output_val (execute_n (reset c) e (Suc m)) =
     kp (reset c) * e + ki (reset c) * integral (execute_n (reset c) e (Suc m))
       + kd (reset c) * derivative (execute_n (reset c) e m) e"
    by (rule execute_n_output)
  also have "\<dots> = kp c * e + ki c * (real (Suc m) * e)"
    by (simp only: d execute_n_integral reset_fields) simp
  finally show "output_val (execute_n (reset c) e k) = kp c * e + ki c * real k * e"
    by (simp add: m)
qed

theorem pid_constant_error_witness:
  "(1::nat) \<le> 3 \<and>
   integral (execute_n (reset (PidController 3 (1/2) 7)) 2 3) = 6 \<and>
   derivative (execute_n (reset (PidController 3 (1/2) 7)) 2 (2 - 1)) 2 = 0 \<and>
   output_val (execute_n (reset (PidController 3 (1/2) 7)) 2 3) = 9"
proof -
  have h: "(1::nat) \<le> 3" by simp
  note t = pid_constant_error [OF h, of "PidController 3 (1/2) 7" 2]
  from t have i: "integral (execute_n (reset (PidController 3 (1/2) 7)) 2 3) = 6"
    by simp
  from t have "2 \<le> (2::nat) \<longrightarrow>
      derivative (execute_n (reset (PidController 3 (1/2) 7)) 2 (2 - 1)) 2 = 0"
    by blast
  then have d: "derivative (execute_n (reset (PidController 3 (1/2) 7)) 2 (2 - 1)) 2 = 0"
    by simp
  from t have "2 \<le> (3::nat) \<longrightarrow>
      output_val (execute_n (reset (PidController 3 (1/2) 7)) 2 3) =
        kp (PidController 3 (1/2) 7) * 2 + ki (PidController 3 (1/2) 7) * real 3 * 2"
    by blast
  then have o: "output_val (execute_n (reset (PidController 3 (1/2) 7)) 2 3) = 9"
    by (simp add: PidController_def)
  from h i d o show ?thesis by blast
qed

section \<open>Properties of the loop of drive\<close>

lemma emit_fields:
  "active (emit es s) = active s" "env (emit es s) = env s"
  "trace (emit es s) = trace s @ es"
  "TurnSpeedControl (emit es s) = TurnSpeedControl s"
  "RunSpeedControl (emit es s) = RunSpeedControl s"
  "RunHeadingControl (emit es s) = RunHeadingControl s"
  "LineFollowerSpeedControl (emit es s) = LineFollowerSpeedControl s"
  "LineFollowerHeadingControl (emit es s) = LineFollowerHeadingControl s"
  "cm_to_degrees (emit es s) = cm_to_degrees s"
  "calibration_log (emit es s) = calibration_log s"
  "kd_default (emit es s) = kd_default s"
  by (simp_all add: emit_def)



lemma drive_iteration_speed_control:
  "RunSpeedControl (snd (snd (drive_iteration dg mn mx he me x s))) =
     clamp_output mn mx (execute (RunSpeedControl s) (speed_error dg (motors_dg x)))"
  by (simp add: drive_iteration_def Let_def emit_fields)


lemma drive_iteration_trace:
  "\<exists>es. trace (snd (snd (drive_iteration dg mn mx he me x s))) =
     trace s @ Left_run (output_val (RunSpeedControl (snd (snd (drive_iteration dg mn mx he me x s)))))
       # Right_run (output_val (RunSpeedControl (snd (snd (drive_iteration dg mn mx he me x s))))
            - output_val (RunHeadingControl (snd (snd (drive_iteration dg mn mx he me x s))))) # es
     \<and> (\<forall>e\<in>set es. \<not> is_call e)
     \<and> (\<not> (me \<or> \<bar>dg\<bar> / 2 \<le> \<bar>motors_dg x\<bar>) \<longrightarrow> es = [])"
  by (simp add: drive_iteration_def Let_def emit_fields)

lemma clamp_output_bounds:
  "\<bar>mn\<bar> \<le> \<bar>mx\<bar> \<Longrightarrow> \<bar>mn\<bar> \<le> \<bar>output_val (clamp_output mn mx c)\<bar> \<and> \<bar>output_val (clamp_output mn mx c)\<bar> \<le> \<bar>mx\<bar>"
  by (simp add: clamp_output_def)

lemma abs_signed_speed: "\<bar>signed_speed v d\<bar> = \<bar>v\<bar>"
  by (simp add: signed_speed_def)

lemma task_handler_quiet: "\<not> button x \<Longrightarrow> task_handler x s = s"
  by (simp add: task_handler_def)



lemma ex_facts:
  "motors_dg (example_sample g a st r) = a" "button (example_sample g a st r) = False"
  "left_stalled (example_sample g a st r) = st" "right_stalled (example_sample g a st r) = False"
  "gyro_angle (example_sample g a st r) = g"
  by (simp_all add: example_sample_def motors_dg_def)




text \<open>
  Claim C6. On a pass through the loop of drive with \<open>\<bar>motors_dg\<bar> < \<bar>distance_dg\<bar> / 2\<close>
  the error is \<open>distance_dg - (distance_dg - motors_dg)\<close>; over the reals this is
  \<open>motors_dg\<close>, and it is the value given to the speed controller.
\<close>

theorem drive_first_half_error:
  "\<bar>motors_dg x\<bar> < \<bar>distance_dg\<bar> / 2 \<Longrightarrow>
     speed_error distance_dg (motors_dg x) = distance_dg - (distance_dg - motors_dg x) \<and>
     distance_dg - (distance_dg - motors_dg x) = motors_dg x \<and>
     RunSpeedControl (snd (snd (drive_iteration distance_dg mn mx he me x s))) =
       clamp_output mn mx (execute (RunSpeedControl s) (motors_dg x))"
  by (simp add: drive_iteration_speed_control speed_error_def)

theorem drive_first_half_error_witness:
  "\<bar>motors_dg (example_sample 0 100 False 0)\<bar> < \<bar>1000\<bar> / 2 \<and>
   speed_error 1000 (motors_dg (example_sample 0 100 False 0)) = 100 \<and>
   RunSpeedControl (snd (snd (drive_iteration 1000 90 800 (\<lambda>x. 0) False
        (example_sample 0 100 False 0) (example_robot [])))) =
     clamp_output 90 800 (execute (RunSpeedControl (example_robot [])) 100)"
proof -
  have h: "\<bar>motors_dg (example_sample 0 100 False 0)\<bar> < \<bar>1000\<bar> / 2"
    by (simp add: motors_dg_def example_sample_def)
  have m: "motors_dg (example_sample 0 100 False 0) = 100"
    by (simp add: motors_dg_def example_sample_def)
  from drive_first_half_error [OF h, of 90 800 "\<lambda>x. 0" False "example_robot []"] h
  show ?thesis by (simp add: m)
qed

text \<open>
  Claim C7. With \<open>0 < \<bar>min_speed\<bar> \<le> \<bar>max_speed\<bar>\<close>, and both bounds given the sign of
  \<open>distance\<close> first, the speed that a pass through the loop of drive sends to the left
  wheel has a magnitude between \<open>\<bar>min_speed\<bar>\<close> and \<open>\<bar>max_speed\<bar>\<close>.
\<close>

theorem drive_left_speed_bounds:
  "0 < \<bar>min_speed\<bar> \<Longrightarrow> \<bar>min_speed\<bar> \<le> \<bar>max_speed\<bar> \<Longrightarrow>
   s' = snd (snd (drive_iteration dg (signed_speed min_speed distance)
                    (signed_speed max_speed distance) he me x s)) \<Longrightarrow>
   (\<exists>es. trace s' = trace s @ Left_run (output_val (RunSpeedControl s'))
            # Right_run (output_val (RunSpeedControl s') - output_val (RunHeadingControl s')) # es)
   \<and> \<bar>min_speed\<bar> \<le> \<bar>output_val (RunSpeedControl s')\<bar>
   \<and> \<bar>output_val (RunSpeedControl s')\<bar> \<le> \<bar>max_speed\<bar>"
proof -
  assume le: "\<bar>min_speed\<bar> \<le> \<bar>max_speed\<bar>"
    and s': "s' = snd (snd (drive_iteration dg (signed_speed min_speed distance)
                    (signed_speed max_speed distance) he me x s))"
  have "\<bar>signed_speed min_speed distance\<bar> \<le> \<bar>signed_speed max_speed distance\<bar>"
    using le by (simp add: abs_signed_speed)
  from clamp_output_bounds [OF this] have
    "\<bar>min_speed\<bar> \<le> \<bar>output_val (RunSpeedControl s')\<bar> \<and>
     \<bar>output_val (RunSpeedControl s')\<bar> \<le> \<bar>max_speed\<bar>"
    by (simp add: s' drive_iteration_speed_control abs_signed_speed)
  moreover have "\<exists>es. trace s' = trace s @ Left_run (output_val (RunSpeedControl s'))
            # Right_run (output_val (RunSpeedControl s') - output_val (RunHeadingControl s')) # es"
    unfolding s' using drive_iteration_trace by blast
  ultimately show ?thesis by blast
qed

theorem drive_left_speed_bounds_witness:
  "0 < \<bar>90::real\<bar> \<and> \<bar>90::real\<bar> \<le> \<bar>800\<bar> \<and>
   \<bar>90\<bar> \<le> \<bar>output_val (RunSpeedControl (snd (snd (drive_iteration (- 1000)
       (signed_speed 90 (- 50)) (signed_speed 800 (- 50)) (\<lambda>x. 0) False
       (example_sample 0 (- 100) False 0) (example_robot [])))))\<bar> \<and>
   \<bar>output_val (RunSpeedControl (snd (snd (drive_iteration (- 1000)
       (signed_speed 90 (- 50)) (signed_speed 800 (- 50)) (\<lambda>x. 0) False
       (example_sample 0 (- 100) False 0) (example_robot [])))))\<bar> \<le> \<bar>800\<bar>"
proof -
  have a: "0 < \<bar>90::real\<bar>" and b: "\<bar>90::real\<bar> \<le> \<bar>800\<bar>" by simp_all
  from drive_left_speed_bounds [OF a b refl, of "- 1000" "- 50" "\<lambda>x. 0" False
      "example_sample 0 (- 100) False 0" "example_robot []"] a b
  show ?thesis by blast
qed

section \<open>Properties of turn\<close>

lemma setup_control_turn:
  "TurnSpeedControl (setup_control s True rc lc) = PidController 6 0.15 (kd_default s)"
  by (simp add: setup_control_def Let_def)

lemma turn_loop_kd_default: "turn_loop angle ex xs s = Some s' \<Longrightarrow> kd_default s' = kd_default s"
proof (induction xs arbitrary: s)
  case Nil
  then show ?case by (simp split: if_splits)
next
  case (Cons x xs)
  show ?case
  proof (cases "active s \<and> \<not> button x \<and> \<not> ex x \<and> \<not> (- 2 < angle - gyro_angle x \<and> angle - gyro_angle x < 2)")
    case True
    with Cons.prems have "turn_loop angle ex xs
        (emit [Left_run (output_val (execute (TurnSpeedControl s) (angle - gyro_angle x))),
               Right_run (- output_val (execute (TurnSpeedControl s) (angle - gyro_angle x)))]
          (s\<lparr>env := xs, TurnSpeedControl := execute (TurnSpeedControl s) (angle - gyro_angle x)\<rparr>)) = Some s'"
      by (simp add: task_handler_def Let_def)
    from Cons.IH [OF this] show ?thesis by (simp add: emit_fields)
  next
    case False
    with Cons.prems show ?thesis
      by (auto simp add: task_handler_def Let_def emit_fields split: if_splits)
  qed
qed

text \<open>
  Claim C2, as amended. A call of turn that is entered with the flag true and returns
  leaves the speed controller of turn newly constructed with the default gains 6 and
  0.15 (and the derivative gain the constructor gives by default), whatever gains were
  passed to the call: the last statement of turn is \<^verbatim>\<open>self.setup_control(turn_control=True)\<close>.
\<close>

theorem turn_restores_default_gains:
  "active s \<Longrightarrow> turn s angle p i d ex = Some s' \<Longrightarrow>
     TurnSpeedControl s' = PidController 6 0.15 (kd_default s)"
proof -
  assume a: "active s" and t: "turn s angle p i d ex = Some s'"
  let ?s2 = "emit [Gyro_reset] (emit [Call_turn angle] s)
      \<lparr>TurnSpeedControl := settings (reset (TurnSpeedControl (emit [Gyro_reset] (emit [Call_turn angle] s)))) p i d\<rparr>"
  from a t obtain s3 where l: "turn_loop angle ex (env ?s2) ?s2 = Some s3"
    and s': "s' = setup_control (emit [Left_hold, Right_hold] s3) True False False"
    by (auto simp add: turn_def Let_def emit_fields split: option.splits)
  from turn_loop_kd_default [OF l] have "kd_default s3 = kd_default s"
    by (simp add: emit_fields)
  then show ?thesis by (simp add: s' setup_control_turn emit_fields)
qed

theorem turn_restores_default_gains_witness:
  "active (example_robot [example_sample 89 0 False 0]) \<and>
   (\<exists>s'. turn (example_robot [example_sample 89 0 False 0]) 90 (Some 10) None None (\<lambda>x. False) = Some s' \<and>
     TurnSpeedControl s' = PidController 6 0.15 0)"
proof -
  have a: "active (example_robot [example_sample 89 0 False 0])"
    by (simp add: example_robot_def MbRobot_def)
  obtain s' where t: "turn (example_robot [example_sample 89 0 False 0]) 90 (Some 10) None None (\<lambda>x. False) = Some s'"
    by (simp add: turn_def Let_def emit_def example_robot_def MbRobot_def task_handler_def ex_facts)
  from turn_restores_default_gains [OF a t] have "TurnSpeedControl s' = PidController 6 0.15 0"
    by (simp add: example_robot_def MbRobot_def)
  with a t show ?thesis by blast
qed

text \<open>
  The claim C2 as it was stated fails: a turn to 90 degrees with \<^verbatim>\<open>speed_kp=10\<close> runs
  with the proportional gain 10 and leaves the proportional gain 6.
\<close>

theorem turn_gains_counterexample:
  "map_option (\<lambda>s. kp (TurnSpeedControl s))
     (turn (example_robot [example_sample 89 0 False 0]) 90 (Some 10) None None (\<lambda>x. False)) = Some 6 \<and>
   kp (settings (reset (TurnSpeedControl (example_robot [example_sample 89 0 False 0]))) (Some 10) None None) = 10"
  by (simp add: turn_def Let_def emit_def example_robot_def MbRobot_def task_handler_def
        ex_facts setup_control_def PidController_def settings_def reset_def execute_def)

section \<open>Properties of drive_to_line, run_to_line and square_line\<close>

lemma upper_examples:
  "upper ''White'' = ''WHITE''" "upper ''black'' = ''BLACK''"
  "upper ''purple'' = ''PURPLE''"
  by code_simp+

lemma drive_to_line_valid:
  "active s \<Longrightarrow> upper color = ''WHITE'' \<or> upper color = ''BLACK'' \<Longrightarrow>
     drive_to_line s distance color sn orient g min_speed max_speed ex \<noteq> Some (Inl e)"
  unfolding drive_to_line_def Let_def
  by (cases "upper color = ''WHITE''") (simp_all add: map_option_case split: option.splits)

lemma run_to_line_valid:
  "active s \<Longrightarrow> upper color = ''WHITE'' \<or> upper color = ''BLACK'' \<Longrightarrow>
     run_to_line s distance sn color orient g min_speed max_speed ex \<noteq> Some (Inl e)"
  unfolding run_to_line_def Let_def
  by (cases "upper color = ''WHITE''") (simp_all add: map_option_case split: option.splits)

lemma square_line_valid:
  "active s \<Longrightarrow> upper color = ''WHITE'' \<or> upper color = ''BLACK'' \<Longrightarrow>
     square_line s forward speed color \<noteq> Some (Inl e)"
  unfolding square_line_def Let_def
  by (cases "upper color = ''WHITE''") (simp_all split: option.splits)

lemma drive_to_line_invalid:
  "active s \<Longrightarrow> upper color \<noteq> ''WHITE'' \<Longrightarrow> upper color \<noteq> ''BLACK'' \<Longrightarrow>
     drive_to_line s distance color sn orient g min_speed max_speed ex =
       Some (Inl (InvalidArgument ''Invalid color for self.run_to_line()'', s))"
  by (simp add: drive_to_line_def Let_def)

lemma run_to_line_invalid:
  "active s \<Longrightarrow> upper color \<noteq> ''WHITE'' \<Longrightarrow> upper color \<noteq> ''BLACK'' \<Longrightarrow>
     run_to_line s distance sn color orient g min_speed max_speed ex =
       Some (Inl (InvalidArgument ''Invalid color for self.run_to_line()'', s))"
  by (simp add: run_to_line_def Let_def)

lemma square_line_invalid:
  "active s \<Longrightarrow> upper color \<noteq> ''WHITE'' \<Longrightarrow> upper color \<noteq> ''BLACK'' \<Longrightarrow>
     square_line s forward speed color =
       Some (Inl (InvalidArgument ''Invalid color for Robot.square_line()'', s))"
  by (simp add: square_line_def Let_def)

text \<open>
  Claim C4. With the flag true, drive_to_line, run_to_line and square_line raise the
  invalid-colour exception exactly if the colour in upper case is neither WHITE nor
  BLACK, and the exception leaves the state as it was at entry: nothing has been
  appended to the trace (no motor or gyro operation, no call of drive) and no sample
  has been read.
\<close>

theorem invalid_color_raises:
  "active s \<Longrightarrow>
     ((\<exists>m s'. drive_to_line s distance color sn orient g min_speed max_speed ex =
                 Some (Inl (InvalidArgument m, s')))
        \<longleftrightarrow> upper color \<noteq> ''WHITE'' \<and> upper color \<noteq> ''BLACK'') \<and>
     ((\<exists>m s'. run_to_line s distance sn color orient g min_speed max_speed ex =
                 Some (Inl (InvalidArgument m, s')))
        \<longleftrightarrow> upper color \<noteq> ''WHITE'' \<and> upper color \<noteq> ''BLACK'') \<and>
     ((\<exists>m s'. square_line s forward speed color = Some (Inl (InvalidArgument m, s')))
        \<longleftrightarrow> upper color \<noteq> ''WHITE'' \<and> upper color \<noteq> ''BLACK'') \<and>
     (upper color \<noteq> ''WHITE'' \<and> upper color \<noteq> ''BLACK'' \<longrightarrow>
        (\<exists>m. drive_to_line s distance color sn orient g min_speed max_speed ex =
                Some (Inl (InvalidArgument m, s))) \<and>
        (\<exists>m. run_to_line s distance sn color orient g min_speed max_speed ex =
                Some (Inl (InvalidArgument m, s))) \<and>
        (\<exists>m. square_line s forward speed color = Some (Inl (InvalidArgument m, s))))"
proof -
  assume a: "active s"
  show ?thesis
  proof (cases "upper color = ''WHITE'' \<or> upper color = ''BLACK''")
    case True
    from drive_to_line_valid [OF a True] run_to_line_valid [OF a True]
      square_line_valid [OF a True] True
    show ?thesis by blast
  next
    case False
    then have w: "upper color \<noteq> ''WHITE''" and b: "upper color \<noteq> ''BLACK''" by simp_all
    from drive_to_line_invalid [OF a w b] run_to_line_invalid [OF a w b]
      square_line_invalid [OF a w b] w b
    show ?thesis by simp
  qed
qed

theorem invalid_color_raises_witness:
  "active (example_robot []) \<and>
   upper ''purple'' \<noteq> ''WHITE'' \<and> upper ''purple'' \<noteq> ''BLACK'' \<and>
   (\<exists>m. drive_to_line (example_robot []) 30 ''purple'' None (Number 0) no_gains 90 800
           (\<lambda>x. False) = Some (Inl (InvalidArgument m, example_robot []))) \<and>
   (\<exists>m. square_line (example_robot []) True 170 ''purple'' =
           Some (Inl (InvalidArgument m, example_robot [])))"
proof -
  have a: "active (example_robot [])" by (simp add: example_robot_def MbRobot_def)
  have u: "upper ''purple'' \<noteq> ''WHITE'' \<and> upper ''purple'' \<noteq> ''BLACK''"
    by (simp add: upper_examples)
  from invalid_color_raises [OF a, of 30 "''purple''" None "Number 0" no_gains 90 800
      "\<lambda>x. False" True 170] u a
  show ?thesis by blast
qed

text \<open>
  Claim C10. With the flag false, drive_to_line, run_to_line and square_line return at
  once with the state unchanged and without an exception, whatever the colour is: the
  test of the colour stands inside \<^verbatim>\<open>if self.active\<close>.
\<close>

theorem inactive_line_methods_no_error:
  "\<not> active s \<Longrightarrow>
     drive_to_line s distance color sn orient g min_speed max_speed ex = Some (Inr s) \<and>
     square_line s forward speed color = Some (Inr s) \<and>
     run_to_line s distance sn color orient g min_speed max_speed ex = Some (Inr s)"
  by (simp add: drive_to_line_def square_line_def run_to_line_def)

theorem inactive_line_methods_no_error_witness:
  "\<not> active ((example_robot [])\<lparr>active := False\<rparr>) \<and>
   upper ''purple'' \<noteq> ''WHITE'' \<and> upper ''purple'' \<noteq> ''BLACK'' \<and>
   drive_to_line ((example_robot [])\<lparr>active := False\<rparr>) 30 ''purple'' None (Number 0) no_gains
     90 800 (\<lambda>x. False) = Some (Inr ((example_robot [])\<lparr>active := False\<rparr>)) \<and>
   square_line ((example_robot [])\<lparr>active := False\<rparr>) True 170 ''purple'' =
     Some (Inr ((example_robot [])\<lparr>active := False\<rparr>))"
proof -
  have h: "\<not> active ((example_robot [])\<lparr>active := False\<rparr>)" by simp
  from inactive_line_methods_no_error [OF h, of 30 "''purple''" None "Number 0" no_gains 90 800
      "\<lambda>x. False" True 170] h
  show ?thesis by (simp add: upper_examples)
qed

section \<open>The emergency stop\<close>

text \<open>
  Claim C9. When the flag has become false (the sample taken for the next test of the
  loop condition has the button pressed), the loop of turn, of drive and of square_line
  ends at that test without another pass through its body and without a further
  operation. With the flag false, turn, drive, follow_line, drive_to_line and
  square_line return at once: no motor, gyro or sensor operation is added to the trace
  and no sample is read (turn and drive only record that they were called).
\<close>

theorem emergency_stop:
  "(active s \<and> button x \<longrightarrow>
      turn_loop angle ex (x # xs) s = Some (s\<lparr>env := xs, active := False\<rparr>) \<and>
      drive_loop dg mn mx he ex me (x # xs) s = Some (s\<lparr>env := xs, active := False\<rparr>) \<and>
      square_loop rep sp left_exit right_exit lok rok (x # xs) s = Some (s\<lparr>env := xs, active := False\<rparr>)) \<and>
   (\<not> active s \<longrightarrow>
      turn_loop angle ex xs s = Some s \<and>
      drive_loop dg mn mx he ex me xs s = Some s \<and>
      square_loop rep sp left_exit right_exit lok rok xs s = Some s \<and>
      turn s angle p i d ex = Some (emit [Call_turn angle] s) \<and>
      drive s distance orient min_speed max_speed g ex = Some (emit [Call_drive distance] s) \<and>
      follow_line s sn distance target g ex = Some s \<and>
      drive_to_line s distance color sno orient g min_speed max_speed ex = Some (Inr s) \<and>
      square_line s forward speed color = Some (Inr s))"
proof (intro conjI impI)
  assume a: "active s \<and> button x"
  then show "turn_loop angle ex (x # xs) s = Some (s\<lparr>env := xs, active := False\<rparr>)"
    by (simp add: task_handler_def)
  from a show "drive_loop dg mn mx he ex me (x # xs) s = Some (s\<lparr>env := xs, active := False\<rparr>)"
    by (simp add: task_handler_def)
  from a show "square_loop rep sp left_exit right_exit lok rok (x # xs) s = Some (s\<lparr>env := xs, active := False\<rparr>)"
    by (simp add: task_handler_def)
next
  assume n: "\<not> active s"
  then show "turn_loop angle ex xs s = Some s" by (cases xs) simp_all
  from n show "drive_loop dg mn mx he ex me xs s = Some s" by (cases xs) simp_all
  from n show "square_loop rep sp left_exit right_exit lok rok xs s = Some s" by (cases xs) simp_all
  from n show "turn s angle p i d ex = Some (emit [Call_turn angle] s)"
    by (simp add: turn_def Let_def emit_fields)
  from n show "drive s distance orient min_speed max_speed g ex = Some (emit [Call_drive distance] s)"
    by (simp add: drive_def Let_def emit_fields)
  from n show "follow_line s sn distance target g ex = Some s"
    by (simp add: follow_line_def)
  from n show "drive_to_line s distance color sno orient g min_speed max_speed ex = Some (Inr s)"
    by (simp add: drive_to_line_def)
  from n show "square_line s forward speed color = Some (Inr s)"
    by (simp add: square_line_def)
qed

theorem emergency_stop_witness:
  "active (example_robot [pressed_sample]) \<and> button pressed_sample \<and>
   turn_loop 90 (\<lambda>x. False) (pressed_sample # []) (example_robot [pressed_sample]) =
     Some ((example_robot [pressed_sample])\<lparr>env := [], active := False\<rparr>) \<and>
   \<not> active ((example_robot [pressed_sample])\<lparr>env := [], active := False\<rparr>) \<and>
   drive ((example_robot [pressed_sample])\<lparr>env := [], active := False\<rparr>) 30 (Number 0) 90 800
       no_gains (\<lambda>x. False) =
     Some (emit [Call_drive 30] ((example_robot [pressed_sample])\<lparr>env := [], active := False\<rparr>)) \<and>
   square_line ((example_robot [pressed_sample])\<lparr>env := [], active := False\<rparr>) True 170 ''White'' =
     Some (Inr ((example_robot [pressed_sample])\<lparr>env := [], active := False\<rparr>))"
proof -
  have a: "active (example_robot [pressed_sample]) \<and> button pressed_sample"
    by (simp add: example_robot_def MbRobot_def pressed_sample_def)
  have n: "\<not> active ((example_robot [pressed_sample])\<lparr>env := [], active := False\<rparr>)"
    by simp
  note t1 = emergency_stop [where s = "example_robot [pressed_sample]" and x = pressed_sample
      and angle = 90 and ex = "\<lambda>x. False" and xs = "[]", THEN conjunct1, THEN mp, OF a]
  have 1: "turn_loop 90 (\<lambda>x. False) (pressed_sample # []) (example_robot [pressed_sample]) =
     Some ((example_robot [pressed_sample])\<lparr>env := [], active := False\<rparr>)"
    by (rule t1 [THEN conjunct1])
  note t2 = emergency_stop [where s = "(example_robot [pressed_sample])\<lparr>env := [], active := False\<rparr>"
      and distance = 30 and orient = "Number 0" and min_speed = 90 and max_speed = 800
      and g = no_gains and ex = "\<lambda>x. False" and forward = True and speed = 170
      and color = "''White''", THEN conjunct2, THEN mp, OF n]
  have 2: "drive ((example_robot [pressed_sample])\<lparr>env := [], active := False\<rparr>) 30 (Number 0) 90 800
       no_gains (\<lambda>x. False) =
     Some (emit [Call_drive 30] ((example_robot [pressed_sample])\<lparr>env := [], active := False\<rparr>))"
    by (rule t2 [THEN conjunct2, THEN conjunct2, THEN conjunct2, THEN conjunct2, THEN conjunct1])
  have 3: "square_line ((example_robot [pressed_sample])\<lparr>env := [], active := False\<rparr>) True 170 ''White'' =
     Some (Inr ((example_robot [pressed_sample])\<lparr>env := [], active := False\<rparr>))"
    by (rule t2 [THEN conjunct2, THEN conjunct2, THEN conjunct2, THEN conjunct2, THEN conjunct2,
          THEN conjunct2, THEN conjunct2])
  from a n 1 2 3 show ?thesis by blast
qed

section \<open>run_path\<close>

text \<open>
  Claim C1 asks that the path \<open>[d0, a0, d1, a1, d2]\<close> gives drive(d0), turn(a0),
  drive(d1), turn(a1), drive(d2). The code does not do that. On the path
  \<open>[10, 90, 20, 45, 30]\<close>, run_path of \<^verbatim>\<open>src/robot\<close> raises AttributeError before any
  call, since the class has no method \<^verbatim>\<open>run\<close>; run_path of \<^verbatim>\<open>src/Robot\<close>, in an
  environment where each call ends after one sample, calls run(10), turn(90), run(90),
  turn(20), run(20), turn(45), run(45): the index advances by one, every element but
  the last is driven, every inner element is also turned, and the last leg is never
  driven.
\<close>

theorem run_path_five_legs_calls:
  "map_option (map_sum fst (\<lambda>s. filter is_call (trace s)))
     (run_path (example_robot []) [10, 90, 20, 45, 30]) = Some (Inl (AttributeError ''run'')) \<and>
   map_option (map_sum fst (\<lambda>s. (filter is_call (trace s), env s)))
     (Robot_run_path
        (example_robot [example_sample 0 200 False 0, example_sample 89 0 False 0,
                        example_sample 0 1800 False 0, example_sample 20 0 False 0,
                        example_sample 0 400 False 0, example_sample 45 0 False 0,
                        example_sample 0 900 False 0])
        [10, 90, 20, 45, 30]) =
     Some (Inr ([Call_run 10, Call_turn 90, Call_run 90, Call_turn 20, Call_run 20,
                 Call_turn 45, Call_run 45], []))"
  by (simp add: run_path_def Robot_run_path_def run_def turn_def upt_rec
        ex_facts drive_iteration_def Let_def emit_def task_handler_def setup_control_def
        example_robot_def MbRobot_def PidController_def execute_def derivative_def
        clamp_output_def speed_error_def settings_def reset_def no_gains_def signed_speed_def)

section \<open>Properties of square_line\<close>





lemma emit_emit: "emit es (emit ds s) = emit (ds @ es) s"
  by (simp add: emit_def)

lemma emit_Nil: "emit [] s = s"
  by (simp add: emit_def)


lemma square_loop_step:
  "active s \<Longrightarrow> \<not> button x \<Longrightarrow>
   square_loop rep sp le re lok rok (x # xs) s =
     (if (lok \<or> le x) \<and> (rok \<or> re x) then
        (if rep = 0
         then drive (emit (holds_of (le x) (re x)) (s\<lparr>env := xs\<rparr>)) (if sp > 0 then - 5 else 5)
                (Number 0) 90 800 (no_gains\<lparr>speed_kp := Some 1.2\<rparr>) (\<lambda>x. False)
         else Some (emit (holds_of (le x) (re x)) (s\<lparr>env := xs\<rparr>)))
      else square_loop rep sp le re (lok \<or> le x) (rok \<or> re x) xs
             (emit (holds_of (le x) (re x)) (s\<lparr>env := xs\<rparr>)))"
  by (simp add: task_handler_quiet Let_def holds_of_def emit_emit emit_Nil)


lemma square_loop_active:
  "square_loop rep sp le re lok rok xs s = Some s' \<Longrightarrow> active s' \<Longrightarrow> active s"
  by (cases xs) (auto split: if_splits)



subsection \<open>square_line returns\<close>







lemma square_line_valid_eq:
  "active s \<Longrightarrow> upper color = ''WHITE'' \<or> upper color = ''BLACK'' \<Longrightarrow>
   square_line s forward speed color =
     (case square_for [0, 1] (\<bar>speed\<bar> * (if forward then 1 else - 1))
             (left_steering_motor_exit_exec s color) (right_steering_motor_exit_exec s color) s of
        None \<Rightarrow> None
      | Some s1 \<Rightarrow> Some (Inr (emit [Left_hold, Right_hold] s1)))"
proof -
  assume act: "active s" and c: "upper color = ''WHITE'' \<or> upper color = ''BLACK''"
  show ?thesis
  proof (cases "upper color = ''WHITE''")
    case True
    have "left_steering_motor_exit_exec s color = (\<lambda>x. left_reflection x > fst (calibration_log s) - 10)"
      "right_steering_motor_exit_exec s color = (\<lambda>x. right_reflection x > fst (calibration_log s) - 10)"
      using True by (auto simp add: left_steering_motor_exit_exec_def right_steering_motor_exit_exec_def)
    with act True show ?thesis
      by (simp add: square_line_def Let_def del: square_for.simps split del: if_split)
  next
    case False
    with c have b: "upper color = ''BLACK''" by simp
    have "left_steering_motor_exit_exec s color = (\<lambda>x. left_reflection x < snd (calibration_log s) + 5)"
      "right_steering_motor_exit_exec s color = (\<lambda>x. right_reflection x < snd (calibration_log s) + 5)"
      using False by (auto simp add: left_steering_motor_exit_exec_def right_steering_motor_exit_exec_def)
    with act b False show ?thesis
      by (simp add: square_line_def Let_def del: square_for.simps split del: if_split)
  qed
qed



lemma square_loop_waits:
  "active s \<Longrightarrow> \<forall>y\<in>set xs. \<not> button y \<and> \<not> le y \<Longrightarrow> \<not> lok \<Longrightarrow>
     square_loop rep sp le re lok rok xs s = None"
proof (induction xs arbitrary: s rok)
  case Nil
  then show ?case by simp
next
  case (Cons y xs)
  from Cons.prems have y: "\<not> button y" "\<not> le y" by simp_all
  have nb: "\<not> ((lok \<or> le y) \<and> (rok \<or> re y))" using y Cons.prems(3) by simp
  have "square_loop rep sp le re lok rok (y # xs) s =
      square_loop rep sp le re (lok \<or> le y) (rok \<or> re y) xs
        (emit (holds_of (le y) (re y)) (s\<lparr>env := xs\<rparr>))"
    by (simp only: square_loop_step [of s y rep sp le re lok rok xs, OF Cons.prems(1) y(1)]
          if_not_P [OF nb])
  also have "\<dots> = square_loop rep sp le re lok (rok \<or> re y) xs
        (emit (holds_of (le y) (re y)) (s\<lparr>env := xs\<rparr>))"
    using y Cons.prems(3) by simp
  also have "\<dots> = None"
    using Cons.prems by (intro Cons.IH) (simp_all add: emit_fields)
  finally show ?case .
qed

lemma square_line_waits:
  "active s \<Longrightarrow> upper color = ''WHITE'' \<or> upper color = ''BLACK'' \<Longrightarrow>
   \<forall>y\<in>set (env s). \<not> button y \<and> \<not> left_steering_motor_exit_exec s color y \<Longrightarrow>
     square_line s forward speed color = None"
proof -
  assume act: "active s" and c: "upper color = ''WHITE'' \<or> upper color = ''BLACK''"
    and w: "\<forall>y\<in>set (env s). \<not> button y \<and> \<not> left_steering_motor_exit_exec s color y"
  let ?sp = "\<bar>speed\<bar> * (if forward then 1 else - 1)"
  let ?a = "emit [Left_run ?sp, Right_run ?sp] s"
  have aa: "active ?a" using act by (simp add: emit_fields)
  have wa: "\<forall>y\<in>set (env ?a). \<not> button y \<and> \<not> left_steering_motor_exit_exec s color y"
    using w by (simp add: emit_fields)
  have nl: "\<not> False" by simp
  have "square_loop 0 ?sp (left_steering_motor_exit_exec s color)
          (right_steering_motor_exit_exec s color) False False (env ?a) ?a = None"
    by (rule square_loop_waits [OF aa wa nl])
  then have "square_for [0, 1] ?sp (left_steering_motor_exit_exec s color)
          (right_steering_motor_exit_exec s color) s = None"
    by (simp only: square_for.simps(2) [of 0] Let_def option.case)
  with square_line_valid_eq [OF act c, of forward speed] show ?thesis by simp
qed




end
